theory Spec2Isabelle
  imports Complex_Main "HOL-Library.Multiset"
begin

section \<open>JavaScript values used by the timecode helpers\<close>

text \<open>
  The program is one TypeScript module, \<^verbatim>\<open>src/app/(tabs)/index.tsx\<close>. Its
  \<^verbatim>\<open>number\<close> values are IEEE doubles. They are modelled by exact values: a frame
  count, a frame rate and a wall-clock reading in milliseconds are integers (\<open>int\<close>), and
  the result of \<^verbatim>\<open>Number(string)\<close>, which may be a fraction, an infinity or
  \<^verbatim>\<open>NaN\<close>, is a \<open>number\<close>. Arithmetic is exact. Sums, products, remainders and
  floors of integers below \<open>2 ^ 53\<close> are exact in doubles as well; the rounding of a
  quotient to a double, overflow to an infinity and the sign of zero are not modelled.

  A string is a list of code units; a \<open>char\<close> stands for a code unit below 256.
\<close>

datatype number = NaN | Finite rat | PInfinity | NInfinity

fun isNaN :: "number \<Rightarrow> bool" where
  "isNaN NaN = True"
| "isNaN _ = False"

fun negate :: "number \<Rightarrow> number" where
  "negate NaN = NaN"
| "negate (Finite q) = Finite (- q)"
| "negate PInfinity = NInfinity"
| "negate NInfinity = PInfinity"

instantiation number :: "{plus, times}"
begin

fun plus_number :: "number \<Rightarrow> number \<Rightarrow> number" where
  "plus_number NaN _ = NaN"
| "plus_number _ NaN = NaN"
| "plus_number (Finite a) (Finite b) = Finite (a + b)"
| "plus_number PInfinity NInfinity = NaN"
| "plus_number NInfinity PInfinity = NaN"
| "plus_number PInfinity _ = PInfinity"
| "plus_number _ PInfinity = PInfinity"
| "plus_number NInfinity _ = NInfinity"
| "plus_number _ NInfinity = NInfinity"

fun times_number :: "number \<Rightarrow> number \<Rightarrow> number" where
  "times_number NaN _ = NaN"
| "times_number _ NaN = NaN"
| "times_number (Finite a) (Finite b) = Finite (a * b)"
| "times_number (Finite a) PInfinity =
     (if a = 0 then NaN else if 0 < a then PInfinity else NInfinity)"
| "times_number (Finite a) NInfinity =
     (if a = 0 then NaN else if 0 < a then NInfinity else PInfinity)"
| "times_number PInfinity (Finite b) =
     (if b = 0 then NaN else if 0 < b then PInfinity else NInfinity)"
| "times_number NInfinity (Finite b) =
     (if b = 0 then NaN else if 0 < b then NInfinity else PInfinity)"
| "times_number PInfinity PInfinity = PInfinity"
| "times_number PInfinity NInfinity = NInfinity"
| "times_number NInfinity PInfinity = NInfinity"
| "times_number NInfinity NInfinity = PInfinity"

instance ..

end

subsection \<open>Strings: white space, \<^verbatim>\<open>trim\<close>, \<^verbatim>\<open>split\<close>, \<^verbatim>\<open>padStart\<close>\<close>

text \<open>
  \<^verbatim>\<open>trim\<close>, \<^verbatim>\<open>trimEnd\<close> and \<^verbatim>\<open>Number\<close> strip the code units of
  ECMAScript's WhiteSpace and LineTerminator. Below 256 these are TAB, LF, VT, FF, CR, SP
  and NBSP.
\<close>

definition is_ws :: "char \<Rightarrow> bool" where
  "is_ws c \<longleftrightarrow> c \<in> set [CHR 0x09, CHR 0x0A, CHR 0x0B, CHR 0x0C, CHR 0x0D, CHR 0x20, CHR 0xA0]"

definition trimStart :: "string \<Rightarrow> string" where
  "trimStart s = dropWhile is_ws s"

definition trimEnd :: "string \<Rightarrow> string" where
  "trimEnd s = rev (dropWhile is_ws (rev s))"

definition trim :: "string \<Rightarrow> string" where
  "trim s = trimEnd (trimStart s)"

text \<open>\<^verbatim>\<open>s.split(sep)\<close> for a separator of one code unit: never empty.\<close>

fun js_split :: "char \<Rightarrow> string \<Rightarrow> string list" where
  "js_split sep [] = [[]]"
| "js_split sep (c # cs) =
     (if c = sep then [] # js_split sep cs
      else (case js_split sep cs of
              w # ws \<Rightarrow> (c # w) # ws
            | [] \<Rightarrow> [[c]]))"

text \<open>\<^verbatim>\<open>s.padStart(n, "0")\<close>.\<close>

definition padStart :: "nat \<Rightarrow> char \<Rightarrow> string \<Rightarrow> string" where
  "padStart n c s = replicate (n - length s) c @ s"

text \<open>\<^verbatim>\<open>xs.join(sep)\<close>.\<close>

fun join :: "string \<Rightarrow> string list \<Rightarrow> string" where
  "join sep [] = []"
| "join sep [x] = x"
| "join sep (x # y # ys) = x @ sep @ join sep (y # ys)"

subsection \<open>Numbers to strings\<close>

definition digit_char :: "nat \<Rightarrow> char" where
  "digit_char d = ''0123456789'' ! d"

text \<open>\<^verbatim>\<open>n.toString()\<close> and \<^verbatim>\<open>String(n)\<close> of a non-negative integer.\<close>

fun nat_toString :: "nat \<Rightarrow> string" where
  "nat_toString n =
     (if n < 10 then [digit_char n] else nat_toString (n div 10) @ [digit_char (n mod 10)])"

declare nat_toString.simps [simp del]

text \<open>Of any integer: a negative one has its sign in front.\<close>

definition toString :: "int \<Rightarrow> string" where
  "toString i = (if i < 0 then CHR ''-'' # nat_toString (nat (- i)) else nat_toString (nat i))"

subsection \<open>Strings to numbers: \<^verbatim>\<open>Number(s)\<close>\<close>

text \<open>
  \<^verbatim>\<open>Number\<close> applied to a string is ECMAScript's StringToNumber: white space is
  stripped at both ends; the empty string is 0; a decimal literal may have a sign, a
  fraction and an exponent, or be \<^verbatim>\<open>Infinity\<close>; a literal with the prefix
  \<^verbatim>\<open>0x\<close>, \<^verbatim>\<open>0o\<close> or \<^verbatim>\<open>0b\<close> is an unsigned integer in that base;
  everything else is \<^verbatim>\<open>NaN\<close>.
\<close>

definition digit_value :: "char \<Rightarrow> nat option" where
  "digit_value = map_of
     [(CHR ''0'', 0), (CHR ''1'', 1), (CHR ''2'', 2), (CHR ''3'', 3), (CHR ''4'', 4),
      (CHR ''5'', 5), (CHR ''6'', 6), (CHR ''7'', 7), (CHR ''8'', 8), (CHR ''9'', 9),
      (CHR ''a'', 10), (CHR ''b'', 11), (CHR ''c'', 12), (CHR ''d'', 13), (CHR ''e'', 14),
      (CHR ''f'', 15),
      (CHR ''A'', 10), (CHR ''B'', 11), (CHR ''C'', 12), (CHR ''D'', 13), (CHR ''E'', 14),
      (CHR ''F'', 15)]"

definition is_digit_of :: "nat \<Rightarrow> char \<Rightarrow> bool" where
  "is_digit_of base c = (case digit_value c of Some d \<Rightarrow> d < base | None \<Rightarrow> False)"

definition digits_value :: "nat \<Rightarrow> string \<Rightarrow> nat" where
  "digits_value base ds = foldl (\<lambda>a c. base * a + (case digit_value c of Some d \<Rightarrow> d | None \<Rightarrow> 0)) 0 ds"

text \<open>A literal after its prefix \<^verbatim>\<open>0x\<close>, \<^verbatim>\<open>0o\<close> or \<^verbatim>\<open>0b\<close>.\<close>

definition non_decimal :: "nat \<Rightarrow> string \<Rightarrow> number" where
  "non_decimal base ds =
     (if ds \<noteq> [] \<and> list_all (is_digit_of base) ds
      then Finite (of_nat (digits_value base ds)) else NaN)"

text \<open>The exponent part: absent, or \<^verbatim>\<open>e\<close> or \<^verbatim>\<open>E\<close> and a signed integer.\<close>

definition signed_integer :: "string \<Rightarrow> int option" where
  "signed_integer s =
     (let neg = (case s of c # _ \<Rightarrow> c = CHR ''-'' | [] \<Rightarrow> False);
          ds = (case s of c # t \<Rightarrow> if c = CHR ''+'' \<or> c = CHR ''-'' then t else s | [] \<Rightarrow> s)
      in if ds \<noteq> [] \<and> list_all (is_digit_of 10) ds
         then Some (if neg then - int (digits_value 10 ds) else int (digits_value 10 ds))
         else None)"

definition exponent_part :: "string \<Rightarrow> int option" where
  "exponent_part s =
     (case s of
        [] \<Rightarrow> Some 0
      | c # t \<Rightarrow> if c = CHR ''e'' \<or> c = CHR ''E'' then signed_integer t else None)"

definition scale10 :: "nat \<Rightarrow> int \<Rightarrow> rat" where
  "scale10 m e = (if 0 \<le> e then of_nat m * 10 ^ nat e else of_nat m / 10 ^ nat (- e))"

definition unsigned_decimal :: "string \<Rightarrow> number" where
  "unsigned_decimal s =
     (if s = ''Infinity'' then PInfinity
      else
        let ip = takeWhile (is_digit_of 10) s;
            r1 = dropWhile (is_digit_of 10) s;
            has_dot = (case r1 of c # _ \<Rightarrow> c = CHR ''.'' | [] \<Rightarrow> False);
            fp = (if has_dot then takeWhile (is_digit_of 10) (tl r1) else []);
            r2 = (if has_dot then dropWhile (is_digit_of 10) (tl r1) else r1)
        in if ip = [] \<and> fp = [] then NaN
           else (case exponent_part r2 of
                   None \<Rightarrow> NaN
                 | Some e \<Rightarrow> Finite (scale10 (digits_value 10 (ip @ fp)) (e - int (length fp)))))"

definition str_decimal :: "string \<Rightarrow> number" where
  "str_decimal s =
     (case s of
        c # t \<Rightarrow>
          if c = CHR ''+'' then unsigned_decimal t
          else if c = CHR ''-'' then negate (unsigned_decimal t)
          else unsigned_decimal s
      | [] \<Rightarrow> NaN)"

definition Number :: "string \<Rightarrow> number" where
  "Number str =
     (let s = trim str in
      if s = [] then Finite 0
      else (case s of
              c # x # t \<Rightarrow>
                if c = CHR ''0'' \<and> (x = CHR ''x'' \<or> x = CHR ''X'') then non_decimal 16 t
                else if c = CHR ''0'' \<and> (x = CHR ''o'' \<or> x = CHR ''O'') then non_decimal 8 t
                else if c = CHR ''0'' \<and> (x = CHR ''b'' \<or> x = CHR ''B'') then non_decimal 2 t
                else str_decimal s
            | _ \<Rightarrow> str_decimal s))"

section \<open>Timecode helpers\<close>

text \<open>
  \<^verbatim>\<open>a % b\<close> on integers truncates: the result has the sign of \<open>a\<close>. For \<open>b = 0\<close>
  the code's result is \<^verbatim>\<open>NaN\<close>, which \<open>framesToTimecode\<close> treats apart.
\<close>

definition js_rem :: "int \<Rightarrow> int \<Rightarrow> int" where
  "js_rem a b = sgn a * (\<bar>a\<bar> mod \<bar>b\<bar>)"

text \<open>
  \<^verbatim>\<open>framesToTimecode(frames, fps)\<close> on integers. \<^verbatim>\<open>Math.floor(f / fps)\<close> is
  \<open>f div fps\<close>, which rounds down. With \<open>fps = 0\<close> the remainders are
  \<^verbatim>\<open>NaN\<close> and the quotients \<^verbatim>\<open>Infinity\<close> (\<^verbatim>\<open>NaN\<close> at frame 0).
\<close>

definition pad2 :: "int \<Rightarrow> string" where
  "pad2 i = padStart 2 (CHR ''0'') (toString i)"

definition framesToTimecode :: "int \<Rightarrow> int \<Rightarrow> string" where
  "framesToTimecode frames fps =
     (let f = max 0 frames in
      if fps = 0 then
        (if f = 0 then ''NaN'' else ''Infinity'') @ '':NaN:NaN:NaN''
      else
        let ff = js_rem f fps;
            totalSeconds = f div fps;
            ss = js_rem totalSeconds 60;
            totalMinutes = totalSeconds div 60;
            mm = js_rem totalMinutes 60;
            hh = totalMinutes div 60
        in pad2 hh @ '':'' @ pad2 mm @ '':'' @ pad2 ss @ '':'' @ pad2 ff)"

text \<open>\<^verbatim>\<open>timecodeToFrames(tc, fps)\<close>, for an integer frame rate.\<close>

definition timecodeToFrames :: "string \<Rightarrow> int \<Rightarrow> number" where
  "timecodeToFrames tc fps =
     (let p = map Number (js_split (CHR '':'') tc) in
      if length p \<noteq> 4 \<or> list_ex isNaN p then Finite 0
      else
        let h = p ! 0; m = p ! 1; s = p ! 2; f = p ! 3
        in (h * Finite 3600 + m * Finite 60 + s) * Finite (of_int fps) + f)"

text \<open>
  \<^verbatim>\<open>framesToSeconds\<close> and \<^verbatim>\<open>secondsToFrames\<close>. \<^verbatim>\<open>Math.round\<close> rounds
  to the nearest integer, a half upwards. The quotient is the exact one only for
  \<open>fps \<noteq> 0\<close> (the code's is an infinity or \<^verbatim>\<open>NaN\<close> there).
\<close>

definition Math_round :: "rat \<Rightarrow> int" where
  "Math_round x = \<lfloor>x + 1 / 2\<rfloor>"



section \<open>The component's state\<close>

text \<open>
  \<^verbatim>\<open>App\<close> keeps its state in React hooks. The record has one field for each
  \<^verbatim>\<open>useState\<close> variable and each \<^verbatim>\<open>useRef\<close> cell the clock, the markers and
  the exports read or write, under the source's names. \<open>raf\<close> tells whether an animation
  frame callback is pending. The theme and the two modals' own variables are left out.
\<close>

record marker =
  id_m :: nat
  frames_m :: int
  comment_m :: string

datatype sort_mode = Created | Timecode

record app =
  fps :: int
  startTC :: string
  frames :: int
  playing :: bool
  markers :: "marker list"
  editing :: "marker option"
  comment :: string
  sortMode :: sort_mode
  summary :: string
  loadingSummary :: bool
  raf :: bool
  startMs :: int
  baseFrames :: int
  nextMarkerId :: nat

text \<open>
  The variable \<^verbatim>\<open>frames\<close> holds an integer in every state the component reaches:
  \<^verbatim>\<open>startTC\<close> is only written by \<^verbatim>\<open>confirmTcModal\<close>, from the four wheel
  pickers, and the clock adds, rounds and floors. The decoded start timecode is read as
  that integer.
\<close>

definition int_of_number :: "number \<Rightarrow> int" where
  "int_of_number x = (case x of Finite q \<Rightarrow> \<lfloor>q\<rfloor> | _ \<Rightarrow> 0)"

definition init :: app where
  "init = \<lparr>fps = 24, startTC = ''01:00:00:00'',
           frames = int_of_number (timecodeToFrames ''01:00:00:00'' 24),
           playing = False, markers = [], editing = None, comment = [],
           sortMode = Timecode, summary = [], loadingSummary = False,
           raf = False, startMs = 0, baseFrames = 0, nextMarkerId = 1\<rparr>"

subsection \<open>The clock\<close>

text \<open>
  The effect on \<^verbatim>\<open>[playing, fps]\<close>: React runs it after a render in which one of
  the two changed. \<open>now\<close> is the reading of \<^verbatim>\<open>Date.now()\<close>.
\<close>

definition timer_effect :: "int \<Rightarrow> app \<Rightarrow> app" where
  "timer_effect now s =
     (if \<not> playing s then s\<lparr>raf := False\<rparr>
      else s\<lparr>startMs := now, baseFrames := frames s, raf := True\<rparr>)"

text \<open>
  \<^verbatim>\<open>loop\<close>, the animation frame callback. The scheduler calls it only while a
  callback is pending, that is while playing.
\<close>

definition loop :: "int \<Rightarrow> app \<Rightarrow> app" where
  "loop now s =
     (let elapsed = now - startMs s;
          add = \<lfloor>(rat_of_int elapsed / 1000) * rat_of_int (fps s)\<rfloor>
      in s\<lparr>frames := baseFrames s + add, raf := True\<rparr>)"

definition play :: "int \<Rightarrow> app \<Rightarrow> app" where
  "play now s = s\<lparr>baseFrames := frames s, startMs := now, playing := True\<rparr>"

definition stop :: "app \<Rightarrow> app" where
  "stop s = s\<lparr>playing := False, raf := False\<rparr>"

definition reset :: "app \<Rightarrow> app" where
  "reset s =
     (let s1 = stop s;
          f = timecodeToFrames (startTC s1) (fps s1)
      in s1\<lparr>frames := int_of_number f, markers := [], summary := []\<rparr>)"

definition adjust :: "int \<Rightarrow> app \<Rightarrow> app" where
  "adjust deltaSeconds s = s\<lparr>frames := max 0 (frames s + deltaSeconds * fps s)\<rparr>"



subsection \<open>Markers\<close>

definition capture :: "app \<Rightarrow> app" where
  "capture s =
     (let m = \<lparr>id_m = nextMarkerId s, frames_m = frames s, comment_m = []\<rparr>
      in s\<lparr>nextMarkerId := nextMarkerId s + 1, markers := markers s @ [m],
            editing := Some m, comment := []\<rparr>)"


text \<open>
  \<^verbatim>\<open>[...xs].sort(cmp)\<close>: ECMAScript requires \<^verbatim>\<open>Array.prototype.sort\<close> to be
  stable, and for a consistent comparator the stable sorted permutation is unique. It is
  computed here by insertion from the left: a later element goes behind every element
  that does not compare greater.
\<close>

fun insert_by :: "('a \<Rightarrow> 'a \<Rightarrow> int) \<Rightarrow> 'a \<Rightarrow> 'a list \<Rightarrow> 'a list" where
  "insert_by cmp x [] = [x]"
| "insert_by cmp x (y # ys) = (if cmp x y < 0 then x # y # ys else y # insert_by cmp x ys)"

definition js_sort :: "('a \<Rightarrow> 'a \<Rightarrow> int) \<Rightarrow> 'a list \<Rightarrow> 'a list" where
  "js_sort cmp xs = foldl (\<lambda>acc x. insert_by cmp x acc) [] xs"

text \<open>
  The listing in the current sort mode: \<^verbatim>\<open>sortedMarkers\<close>, and the same expression
  as \<^verbatim>\<open>ordered\<close> in \<^verbatim>\<open>buildMarkersText\<close>, \<^verbatim>\<open>exportMarkersPdf\<close> and
  \<^verbatim>\<open>generateSummary\<close>.
\<close>

definition sortedMarkers :: "app \<Rightarrow> marker list" where
  "sortedMarkers s =
     (if sortMode s = Timecode then js_sort (\<lambda>a b. frames_m a - frames_m b) (markers s)
      else markers s)"

section \<open>Export and summary\<close>

text \<open>\<^verbatim>\<open>xs.map((m, index) => ...)\<close>: each element with its index from 0.\<close>

definition map_index :: "('a \<Rightarrow> nat \<Rightarrow> 'b) \<Rightarrow> 'a list \<Rightarrow> 'b list" where
  "map_index g xs = map (\<lambda>(index, m). g m index) (enumerate 0 xs)"

definition buildMarkersText :: "app \<Rightarrow> string" where
  "buildMarkersText s =
     (let ordered = sortedMarkers s
      in join [CHR 0x0A]
           (map_index
              (\<lambda>m index.
                 let num = padStart 2 (CHR ''0'') (toString (int index + 1));
                     tc = framesToTimecode (frames_m m) (fps s);
                     c = trim (comment_m m)
                 in trimEnd (''#'' @ num @ '' ['' @ tc @ ''] '' @ c))
              ordered))"


text \<open>
  What an export or the summary does to the world is a list of effects, in the order the
  code performs them. What the world answers is read from an \<open>env\<close>: the platform, the
  user's answers, the file system's and the printer's paths, the API key and the reply of
  the summary service. The Android file name modal's own variables and the static markup
  of the printed document are left out; the document is given by its metadata and rows.
\<close>

datatype platform = IOS | Android | Web

datatype export_choice = ChooseCancel | ChooseTXT | ChoosePDF | ChooseCopy

datatype fetch_result = NetworkError | Response "string option" "string option"

record env =
  platformOS :: platform
  documentDirectory :: string
  fileNameAnswer :: "string option"
  exportChoice :: export_choice
  exportedAt :: string
  printUri :: string
  canShare :: bool
  GEMINI_KEY :: "string option"
  fetchResult :: fetch_result

record pdf_row =
  num_cell :: string
  tc_cell :: string
  cmt_cell :: string

record pdf_document =
  sort_label :: string
  total :: nat
  fps_label :: string
  export_label :: string
  rows :: "pdf_row list"

datatype effect =
    Alert string string
  | AskFileName string string
  | WriteAsString string string
  | Share string
  | PrintToFile pdf_document
  | CopyFile string string
  | ClipboardSet string
  | ExportMenu
  | Fetch string string

text \<open>
  \<open>Alert title message\<close> is \<^verbatim>\<open>Alert.alert\<close>; \<open>AskFileName\<close> the prompt or modal
  of \<^verbatim>\<open>askFileName\<close> with the default name and the extension; \<open>WriteAsString uri
  content\<close>, \<open>CopyFile from to\<close> and \<open>Share uri\<close> the calls of the file system and of
  sharing; \<open>PrintToFile\<close> the call of \<^verbatim>\<open>Print.printToFileAsync\<close>; \<open>ClipboardSet\<close>
  that of \<^verbatim>\<open>Clipboard.setStringAsync\<close>; \<open>ExportMenu\<close> the action sheet or the alert
  with the export buttons; \<open>Fetch key prompt\<close> the POST to the summary service with the
  API key in the URL and the prompt as the one part of the request.
\<close>

text \<open>
  \<^verbatim>\<open>askFileName\<close> resolves to the trimmed name the user entered, or to the default
  name when the prompt is cancelled or the name is empty, with the extension.
\<close>

definition askFileName :: "env \<Rightarrow> string \<Rightarrow> string \<Rightarrow> string" where
  "askFileName e defaultName extension =
     (case fileNameAnswer e of
        None \<Rightarrow> defaultName @ ''.'' @ extension
      | Some v \<Rightarrow>
          let name = trim v
          in if name \<noteq> [] then name @ ''.'' @ extension else defaultName @ ''.'' @ extension)"

definition exportMarkers :: "env \<Rightarrow> app \<Rightarrow> effect list \<times> app" where
  "exportMarkers e s =
     (if length (markers s) = 0 then ([Alert ''Export'' ''Nessun marker da esportare.''], s)
      else
        let content = buildMarkersText s;
            defaultName = ''markers_'' @ toString (fps s) @ ''fps'';
            fileName = askFileName e defaultName ''txt'';
            uri = documentDirectory e @ fileName
        in ([AskFileName defaultName ''txt'', WriteAsString uri content, Share uri], s))"

text \<open>\<^verbatim>\<open>s.replaceAll(c, r)\<close> for a pattern of one code unit, and \<^verbatim>\<open>esc\<close>.\<close>

definition replaceAll :: "char \<Rightarrow> string \<Rightarrow> string \<Rightarrow> string" where
  "replaceAll c r s = concat (map (\<lambda>x. if x = c then r else [x]) s)"

definition esc :: "string \<Rightarrow> string" where
  "esc s =
     replaceAll (CHR 0x27) ''&#039;''
       (replaceAll (CHR 0x22) ''&quot;''
          (replaceAll (CHR ''>'') ''&gt;''
             (replaceAll (CHR ''<'') ''&lt;''
                (replaceAll (CHR ''&'') ''&amp;'' s))))"

definition sort_mode_name :: "sort_mode \<Rightarrow> string" where
  "sort_mode_name m = (case m of Created \<Rightarrow> ''created'' | Timecode \<Rightarrow> ''timecode'')"

definition exportMarkersPdf :: "env \<Rightarrow> app \<Rightarrow> effect list \<times> app" where
  "exportMarkersPdf e s =
     (if length (markers s) = 0 then ([Alert ''Export'' ''Nessun marker da esportare.''], s)
      else if platformOS e = Web
        then ([Alert ''Export PDF'' ''Export PDF non supportato su web.''], s)
      else
        let ordered = sortedMarkers s;
            rows = map_index
                     (\<lambda>m index.
                        let num = padStart 2 (CHR ''0'') (toString (int index + 1));
                            tc = framesToTimecode (frames_m m) (fps s);
                            c = trim (comment_m m)
                        in \<lparr>num_cell = ''#'' @ num, tc_cell = esc tc, cmt_cell = esc c\<rparr>)
                     ordered;
            html = \<lparr>sort_label = esc (sort_mode_name (sortMode s)), total = length ordered,
                    fps_label = esc (toString (fps s)), export_label = esc (exportedAt e),
                    rows = rows\<rparr>;
            safeSort = (if sortMode s = Timecode then ''timecode'' else ''ordine'');
            defaultName = ''markers_'' @ toString (fps s) @ ''fps_'' @ safeSort;
            fileName = askFileName e defaultName ''pdf'';
            targetUri = documentDirectory e @ fileName;
            steps = [PrintToFile html, AskFileName defaultName ''pdf'',
                    CopyFile (printUri e) targetUri]
        in if \<not> canShare e
           then (steps @ [Alert ''Export'' ''Sharing non disponibile su questo dispositivo.''], s)
           else (steps @ [Share targetUri], s))"

definition copyMarkersToClipboard :: "env \<Rightarrow> app \<Rightarrow> effect list \<times> app" where
  "copyMarkersToClipboard e s =
     (if length (markers s) = 0 then ([Alert ''Export'' ''Nessun marker da copiare.''], s)
      else
        let txt = buildMarkersText s
        in ([ClipboardSet txt, Alert ''Copiato'' ''Markers copiati negli appunti.''], s))"

text \<open>
  \<^verbatim>\<open>onPressExport\<close> shows the action sheet (iOS) or the alert with buttons
  (elsewhere); both run the action the user picks.
\<close>

definition onPressExport :: "env \<Rightarrow> app \<Rightarrow> effect list \<times> app" where
  "onPressExport e s =
     (if length (markers s) = 0 then ([Alert ''Export'' ''Nessun marker da esportare.''], s)
      else
        (case exportChoice e of
           ChooseCancel \<Rightarrow> ([ExportMenu], s)
         | ChooseTXT \<Rightarrow> (ExportMenu # fst (exportMarkers e s), snd (exportMarkers e s))
         | ChoosePDF \<Rightarrow> (ExportMenu # fst (exportMarkersPdf e s), snd (exportMarkersPdf e s))
         | ChooseCopy \<Rightarrow>
             (ExportMenu # fst (copyMarkersToClipboard e s), snd (copyMarkersToClipboard e s))))"

text \<open>
  \<^verbatim>\<open>generateSummary\<close>. A reply is the text of the first candidate and the error
  message, where present; \<^verbatim>\<open>||\<close> passes over an absent or empty string.
\<close>

definition or_else :: "string option \<Rightarrow> string \<Rightarrow> string" where
  "or_else a b = (case a of None \<Rightarrow> b | Some x \<Rightarrow> if x = [] then b else x)"

definition generateSummary :: "env \<Rightarrow> app \<Rightarrow> effect list \<times> app" where
  "generateSummary e s =
     (if length (markers s) = 0 then ([Alert ''Riepilogo'' ''Nessun marker disponibile.''], s)
      else if or_else (GEMINI_KEY e) [] = []
        then ([Alert ''Gemini API key mancante''
                 (''Aggiungi EXPO_PUBLIC_GEMINI_KEY nel file .env e riavvia l'' @ [CHR 0x27]
                    @ ''app.'')], s)
      else
        let s1 = s\<lparr>loadingSummary := True, summary := []\<rparr>;
            ordered = sortedMarkers s;
            txt = join [CHR 0x0A]
                    (map (\<lambda>m. ''['' @ framesToTimecode (frames_m m) (fps s) @ ''] ''
                                @ comment_m m) ordered);
            prompt = ''Riassumi i seguenti commenti di una sessione di screening video:''
                       @ [CHR 0x0A] @ txt;
            out = (case fetchResult e of
                     NetworkError \<Rightarrow> ''Errore di rete durante la chiamata a Gemini.''
                   | Response cand err \<Rightarrow>
                       or_else cand (or_else err ''Errore durante la generazione.''))
        in ([Fetch (or_else (GEMINI_KEY e) []) prompt],
            s1\<lparr>summary := out, loadingSummary := False\<rparr>))"





section \<open>The timecode codec\<close>

subsection \<open>Decimal digits\<close>

lemma digit_cases: "d < 10 \<Longrightarrow> d \<in> {0, 1, 2, 3, 4, 5, 6, 7, 8, 9::nat}"
  by auto

lemma digit_value_digit_char: "d < 10 \<Longrightarrow> digit_value (digit_char d) = Some d"
  using digit_cases [of d] by (auto simp: digit_value_def digit_char_def)

lemma is_digit_digit_char: "d < 10 \<Longrightarrow> is_digit_of 10 (digit_char d)"
  by (simp add: is_digit_of_def digit_value_digit_char)

lemma is_digit_zero: "is_digit_of 10 (CHR ''0'')"
  by (simp add: is_digit_of_def digit_value_def)

lemma is_digit_cases:
  "is_digit_of 10 c \<Longrightarrow> c \<in> set ''0123456789''"
  by (auto simp: is_digit_of_def digit_value_def split: if_splits)

lemma nat_toString_digits: "list_all (is_digit_of 10) (nat_toString n)"
proof (induction n rule: nat_toString.induct)
  case (1 n)
  show ?case
  proof (cases "n < 10")
    case True
    then show ?thesis by (simp add: nat_toString.simps [of n] is_digit_digit_char)
  next
    case False
    with 1 show ?thesis by (simp add: nat_toString.simps [of n] is_digit_digit_char)
  qed
qed

lemma nat_toString_nonempty: "nat_toString n \<noteq> []"
  by (simp add: nat_toString.simps [of n])

lemma digits_value_snoc:
  "digits_value b (ds @ [c]) = b * digits_value b ds + (case digit_value c of Some d \<Rightarrow> d | None \<Rightarrow> 0)"
  by (simp add: digits_value_def)

lemma digits_value_nat_toString: "digits_value 10 (nat_toString n) = n"
proof (induction n rule: nat_toString.induct)
  case (1 n)
  show ?case
  proof (cases "n < 10")
    case True
    then show ?thesis
      by (simp add: nat_toString.simps [of n] digits_value_def digit_value_digit_char)
  next
    case False
    with 1 have "digits_value 10 (nat_toString (n div 10)) = n div 10" by simp
    with False show ?thesis
      by (simp add: nat_toString.simps [of n] digits_value_snoc digit_value_digit_char)
  qed
qed

lemma digits_value_zeros: "digits_value 10 (replicate k (CHR ''0'') @ ds) = digits_value 10 ds"
proof -
  have "foldl (\<lambda>a c. 10 * a + (case digit_value c of Some d \<Rightarrow> d | None \<Rightarrow> 0)) 0 (replicate k (CHR ''0'')) = 0"
    by (induction k) (simp_all add: digit_value_def)
  then show ?thesis by (simp add: digits_value_def)
qed

lemma trim_no_ws:
  assumes "list_all (\<lambda>c. \<not> is_ws c) s"
  shows "trim s = s"
proof -
  have a: "dropWhile is_ws xs = xs" if "list_all (\<lambda>c. \<not> is_ws c) xs" for xs
    using that by (cases xs) simp_all
  from assms have "list_all (\<lambda>c. \<not> is_ws c) (rev s)" by (simp add: list_all_iff)
  with assms show ?thesis by (simp add: trim_def trimStart_def trimEnd_def a)
qed

lemma digit_not_ws: "is_digit_of 10 c \<Longrightarrow> \<not> is_ws c"
  by (drule is_digit_cases) (auto simp: is_ws_def)

lemma Number_digits:
  assumes ne: "ds \<noteq> []" and dg: "list_all (is_digit_of 10) ds"
  shows "Number ds = Finite (of_nat (digits_value 10 ds))"
proof -
  from dg have "list_all (\<lambda>c. \<not> is_ws c) ds"
    by (auto simp: list_all_iff digit_not_ws)
  then have tr: "trim ds = ds" by (rule trim_no_ws)
  have tw: "takeWhile (is_digit_of 10) ds = ds" and dw: "dropWhile (is_digit_of 10) ds = []"
    using dg by (simp_all add: list_all_iff)
  from ne obtain c t where ds: "ds = c # t" by (cases ds) auto
  with dg have "is_digit_of 10 c" by simp
  then have c: "c \<in> set ''0123456789''" by (rule is_digit_cases)
  have inf: "ds \<noteq> ''Infinity''" using c ds by auto
  have ud: "unsigned_decimal ds = Finite (of_nat (digits_value 10 ds))"
    using ne inf by (simp add: unsigned_decimal_def tw dw exponent_part_def scale10_def)
  have sd: "str_decimal ds = Finite (of_nat (digits_value 10 ds))"
    using c ds ud by (auto simp: str_decimal_def)
  show ?thesis
  proof (cases t)
    case Nil
    with ds sd show ?thesis unfolding Number_def tr by simp
  next
    case (Cons x t')
    with ds dg have "is_digit_of 10 x" by simp
    then have "x \<in> set ''0123456789''" by (rule is_digit_cases)
    then have "x \<notin> set ''xXoObB''" by auto
    with Cons ds sd show ?thesis unfolding Number_def tr by simp
  qed
qed


lemma js_split_no_sep: "sep \<notin> set a \<Longrightarrow> js_split sep a = [a]"
  by (induction a) auto

lemma js_split_append:
  "sep \<notin> set a \<Longrightarrow> js_split sep (a @ sep # rest) = a # js_split sep rest"
  by (induction a) auto

lemma js_split4:
  assumes "sep \<notin> set a" "sep \<notin> set b" "sep \<notin> set c" "sep \<notin> set d"
  shows "js_split sep (a @ [sep] @ b @ [sep] @ c @ [sep] @ d) = [a, b, c, d]"
  using assms by (simp add: js_split_append js_split_no_sep)

lemma pad2_nonneg:
  "0 \<le> i \<Longrightarrow> pad2 i = replicate (2 - length (nat_toString (nat i))) (CHR ''0'') @ nat_toString (nat i)"
  by (simp add: pad2_def padStart_def toString_def)

lemma pad2_digits: "0 \<le> i \<Longrightarrow> list_all (is_digit_of 10) (pad2 i)"
  using nat_toString_digits [of "nat i"]
  by (auto simp: pad2_nonneg list_all_iff is_digit_zero)

lemma pad2_nonempty: "0 \<le> i \<Longrightarrow> pad2 i \<noteq> []"
  by (simp add: pad2_nonneg nat_toString_nonempty)

lemma pad2_value: "0 \<le> i \<Longrightarrow> digits_value 10 (pad2 i) = nat i"
  by (simp add: pad2_nonneg digits_value_zeros digits_value_nat_toString)

lemma pad2_no_colon: "0 \<le> i \<Longrightarrow> CHR '':'' \<notin> set (pad2 i)"
proof
  assume i: "0 \<le> i" and "CHR '':'' \<in> set (pad2 i)"
  with pad2_digits [OF i] have "is_digit_of 10 (CHR '':'')" by (simp add: list_all_iff)
  then show False by (simp add: is_digit_of_def digit_value_def)
qed

lemma Number_pad2: "0 \<le> i \<Longrightarrow> Number (pad2 i) = Finite (of_int i)"
  by (simp add: Number_digits pad2_nonempty pad2_digits pad2_value)

lemma js_rem_nonneg: "0 \<le> a \<Longrightarrow> 0 < b \<Longrightarrow> js_rem a b = a mod b"
  by (cases "a = 0") (simp_all add: js_rem_def)

lemma framesToTimecode_pos:
  assumes "0 < r"
  shows "framesToTimecode n r =
           pad2 (max 0 n div r div 60 div 60) @ '':'' @
           pad2 (max 0 n div r div 60 mod 60) @ '':'' @
           pad2 (max 0 n div r mod 60) @ '':'' @
           pad2 (max 0 n mod r)"
proof -
  have "0 \<le> max 0 n div r" "0 \<le> max 0 n div r div 60"
    using assms by (simp_all add: pos_imp_zdiv_nonneg_iff)
  with assms show ?thesis
    by (simp add: framesToTimecode_def Let_def js_rem_nonneg)
qed

lemma timecode_fields_sum:
  fixes f r :: int
  shows "((f div r div 60 div 60) * 3600 + (f div r div 60 mod 60) * 60 + f div r mod 60) * r
           + f mod r = f"
proof -
  have "(f div r div 60 div 60) * 3600 + (f div r div 60 mod 60) * 60 = (f div r div 60) * 60"
    using div_mult_mod_eq [of "f div r div 60" 60] by linarith
  then have "(f div r div 60 div 60) * 3600 + (f div r div 60 mod 60) * 60 + f div r mod 60 = f div r"
    using div_mult_mod_eq [of "f div r" 60] by linarith
  then show ?thesis by simp
qed

lemma decode_encode:
  assumes r: "0 < r" and f: "0 \<le> f"
  shows "timecodeToFrames (framesToTimecode f r) r = Finite (of_int f)"
proof -
  let ?hh = "f div r div 60 div 60" and ?mm = "f div r div 60 mod 60"
  let ?ss = "f div r mod 60" and ?ff = "f mod r"
  have ts: "0 \<le> f div r" and tm: "0 \<le> f div r div 60"
    using r f by (simp_all add: pos_imp_zdiv_nonneg_iff)
  have nn: "0 \<le> ?hh" "0 \<le> ?mm" "0 \<le> ?ss" "0 \<le> ?ff"
    using r ts tm by (simp_all add: pos_imp_zdiv_nonneg_iff)
  have enc: "framesToTimecode f r = pad2 ?hh @ [CHR '':''] @ pad2 ?mm @ [CHR '':''] @ pad2 ?ss @ [CHR '':''] @ pad2 ?ff"
    using f by (simp add: framesToTimecode_pos [OF r] max_def)
  have sp: "js_split (CHR '':'') (framesToTimecode f r) = [pad2 ?hh, pad2 ?mm, pad2 ?ss, pad2 ?ff]"
    unfolding enc using nn by (intro js_split4 pad2_no_colon)
  have "timecodeToFrames (framesToTimecode f r) r =
          Finite (of_int ((?hh * 3600 + ?mm * 60 + ?ss) * r + ?ff))"
    using nn by (simp add: timecodeToFrames_def sp Number_pad2)
  then show ?thesis by (simp only: timecode_fields_sum)
qed

text \<open>
  Claim C1 (round trip of the timecode codec). For a frame rate of 24, 25 or 30 and a
  frame count \<open>f\<close> with \<open>0 \<le> f < r * 86400 * 24\<close>, decoding the encoded timecode at
  the same frame rate gives \<open>f\<close> back.
\<close>

theorem timecode_round_trip:
  assumes "r \<in> {24, 25, 30}" and "0 \<le> f" and "f < r * 86400 * 24"
  shows "timecodeToFrames (framesToTimecode f r) r = Finite (of_int f)"
  using assms by (intro decode_encode) auto

theorem timecode_round_trip_witness:
  "(24::int) \<in> {24, 25, 30} \<and> (0::int) \<le> 2073599 \<and> (2073599::int) < 24 * 86400 * 24
   \<and> framesToTimecode 2073599 24 = ''23:59:59:23''
   \<and> timecodeToFrames ''23:59:59:23'' 24 = Finite 2073599"
proof -
  have e: "framesToTimecode 2073599 24 = ''23:59:59:23''" by code_simp
  from timecode_round_trip [of 24 2073599] e show ?thesis by simp
qed

subsection \<open>Decoding any string\<close>




text \<open>
  Claim C10 (no range check, no clamp). Beyond the test for four numeric fields the
  decoder restricts nothing: an empty field counts as 0, a negative or fractional field
  counts as its number, and the result is not clamped at 0. With the hour field \<open>-1\<close>
  the result is \<open>- 3600 * fps\<close>, at 24 frames per second \<open>- 86400\<close>.
\<close>

theorem decode_unclamped:
  "timecodeToFrames ''-1:00:00:00'' r = Finite (- (3600 * of_int r))
   \<and> timecodeToFrames ''-1:00:00:00'' 24 = Finite (- 86400)
   \<and> timecodeToFrames '':::'' r = Finite 0
   \<and> timecodeToFrames ''0:0:0:1.5'' r = Finite (3 / 2)
   \<and> timecodeToFrames ''0:0:-1.5:0'' r = Finite (- (3 / 2) * of_int r)"
proof -
  have a: "map Number (js_split (CHR '':'') ''-1:00:00:00'')
             = [Finite (- 1), Finite 0, Finite 0, Finite 0]"
    by code_simp
  have b: "map Number (js_split (CHR '':'') '':::'') = [Finite 0, Finite 0, Finite 0, Finite 0]"
    by code_simp
  have c: "map Number (js_split (CHR '':'') ''0:0:0:1.5'')
             = [Finite 0, Finite 0, Finite 0, Finite (3 / 2)]"
    by code_simp
  have d: "map Number (js_split (CHR '':'') ''0:0:-1.5:0'')
             = [Finite 0, Finite 0, Finite (- (3 / 2)), Finite 0]"
    by code_simp
  show ?thesis unfolding timecodeToFrames_def a b c d by simp
qed

theorem decode_unclamped_witness:
  "timecodeToFrames ''-1:00:00:00'' 30 = Finite (- 108000)
   \<and> timecodeToFrames ''0:0:-1.5:0'' 30 = Finite (- 45)"
  using decode_unclamped [of 30] by simp

section \<open>The clock\<close>

lemma floor_ms: "\<lfloor>(rat_of_int e / 1000) * rat_of_int r\<rfloor> = (e * r) div 1000"
proof -
  have "(rat_of_int e / 1000) * rat_of_int r = rat_of_int (e * r) / rat_of_int 1000"
    by simp
  then show ?thesis by (simp only: floor_divide_of_int_eq)
qed

lemma loop_frames: "frames (loop now s) = baseFrames s + ((now - startMs s) * fps s) div 1000"
  unfolding loop_def Let_def floor_ms by simp




lemma started:
  "baseFrames (timer_effect t0 (play t1 s)) = frames s"
  "startMs (timer_effect t0 (play t1 s)) = t0"
  "fps (timer_effect t0 (play t1 s)) = fps s"
  "playing (timer_effect t0 (play t1 s))"
  by (simp_all add: timer_effect_def play_def)



text \<open>
  Claim C3 (adjust by seconds). \<^verbatim>\<open>adjust\<close> sets the frame position to
  \<open>max 0 (frames + deltaSeconds * fps)\<close> in either state, but it leaves
  \<^verbatim>\<open>baseFrames\<close> and \<^verbatim>\<open>startMs\<close> as they are. While playing, the next tick
  therefore computes the same position as without the adjustment, and the adjustment is
  lost: at 24 frames per second, playing from frame 86400 since time 1000, \<open>adjust 5\<close>
  gives frame 86520 and the tick at time 1016 gives 86400 again. The claim's second half
  does not hold of the code.
\<close>

theorem adjust_lost_on_next_tick:
  "frames (adjust d s) = max 0 (frames s + d * fps s)
   \<and> baseFrames (adjust d s) = baseFrames s
   \<and> startMs (adjust d s) = startMs s
   \<and> frames (loop now (adjust d s)) = frames (loop now s)
   \<and> frames (timer_effect 1000 (play 1000 init)) = 86400
   \<and> frames (adjust 5 (timer_effect 1000 (play 1000 init))) = 86520
   \<and> frames (loop 1016 (adjust 5 (timer_effect 1000 (play 1000 init)))) = 86400"
proof -
  have i: "frames init = 86400" by code_simp
  have r: "fps init = 24" by (simp add: init_def)
  have g: "frames (adjust d s) = max 0 (frames s + d * fps s)"
    "baseFrames (adjust d s) = baseFrames s" "startMs (adjust d s) = startMs s"
    "fps (adjust d s) = fps s" for d s
    by (simp_all add: adjust_def)
  have l: "frames (loop now (adjust d s)) = frames (loop now s)"
    by (simp add: loop_frames g)
  have p: "frames (timer_effect 1000 (play 1000 init)) = 86400"
    by (simp add: timer_effect_def play_def i)
  have a: "frames (adjust 5 (timer_effect 1000 (play 1000 init))) = 86520"
    by (simp add: g p started r)
  have t: "frames (loop 1016 (adjust 5 (timer_effect 1000 (play 1000 init)))) = 86400"
    by (simp add: loop_frames g started i r)
  from g(1-3) l p a t show ?thesis by simp
qed

subsection \<open>Changing the frame rate\<close>

lemma Math_round_round: "Math_round x = round x"
  by (simp add: Math_round_def round_def)



section \<open>The marker ledger\<close>

subsection \<open>Listing order\<close>

lemma mset_insert_by: "mset (insert_by cmp x ys) = add_mset x (mset ys)"
  by (induction ys) simp_all

lemma set_insert_by: "set (insert_by cmp x ys) = insert x (set ys)"
  by (induction ys) auto

lemma sorted_insert_by:
  "sorted (map frames_m ys) \<Longrightarrow>
   sorted (map frames_m (insert_by (\<lambda>a b. frames_m a - frames_m b) x ys))"
  by (induction ys) (auto simp: set_insert_by)

lemma filter_insert_by:
  "sorted (map frames_m ys) \<Longrightarrow>
   filter (\<lambda>m. frames_m m = k) (insert_by (\<lambda>a b. frames_m a - frames_m b) x ys)
     = filter (\<lambda>m. frames_m m = k) ys @ (if frames_m x = k then [x] else [])"
proof (induction ys)
  case Nil
  then show ?case by simp
next
  case (Cons y ys)
  show ?case
  proof (cases "frames_m x < frames_m y")
    case True
    with Cons.prems have "\<forall>m \<in> set (y # ys). frames_m x < frames_m m" by auto
    then have "frames_m x = k \<Longrightarrow> filter (\<lambda>m. frames_m m = k) (y # ys) = []"
      by (auto simp: filter_empty_conv)
    with True show ?thesis by auto
  next
    case False
    with Cons show ?thesis by simp
  qed
qed

lemma foldl_insert_by:
  "sorted (map frames_m acc) \<Longrightarrow>
   sorted (map frames_m (foldl (\<lambda>acc x. insert_by (\<lambda>a b. frames_m a - frames_m b) x acc) acc xs))
   \<and> mset (foldl (\<lambda>acc x. insert_by (\<lambda>a b. frames_m a - frames_m b) x acc) acc xs)
       = mset acc + mset xs
   \<and> filter (\<lambda>m. frames_m m = k)
         (foldl (\<lambda>acc x. insert_by (\<lambda>a b. frames_m a - frames_m b) x acc) acc xs)
       = filter (\<lambda>m. frames_m m = k) acc @ filter (\<lambda>m. frames_m m = k) xs"
proof (induction xs arbitrary: acc)
  case Nil
  then show ?case by simp
next
  case (Cons x xs)
  from Cons.prems
  have s: "sorted (map frames_m (insert_by (\<lambda>a b. frames_m a - frames_m b) x acc))"
    by (rule sorted_insert_by)
  from Cons.IH [OF s] Cons.prems show ?case
    by (simp add: mset_insert_by filter_insert_by)
qed


text \<open>
  Claim C6 (listing order). In the mode \<^verbatim>\<open>created\<close> the listing is the markers in
  insertion order, unchanged. In the mode \<^verbatim>\<open>timecode\<close> it is a permutation of them
  in ascending order of frame, and stable: the markers of any one frame stand in it in
  their insertion order. For the markers with ids 1, 2, 3 at the frames 120, 0, 120 the
  timecode order is 2, 1, 3.
\<close>

theorem listing_order:
  "sortedMarkers (s\<lparr>sortMode := Created\<rparr>) = markers s
   \<and> sorted (map frames_m (sortedMarkers (s\<lparr>sortMode := Timecode\<rparr>)))
   \<and> mset (sortedMarkers (s\<lparr>sortMode := Timecode\<rparr>)) = mset (markers s)
   \<and> (\<forall>k. filter (\<lambda>m. frames_m m = k) (sortedMarkers (s\<lparr>sortMode := Timecode\<rparr>))
            = filter (\<lambda>m. frames_m m = k) (markers s))"
  using foldl_insert_by [of "[]" "markers s"]
  by (simp add: sortedMarkers_def js_sort_def)

theorem listing_order_witness:
  "map id_m (sortedMarkers (init\<lparr>markers :=
      [\<lparr>id_m = 1, frames_m = 120, comment_m = ''a''\<rparr>,
       \<lparr>id_m = 2, frames_m = 0, comment_m = ''b''\<rparr>,
       \<lparr>id_m = 3, frames_m = 120, comment_m = ''c''\<rparr>], sortMode := Timecode\<rparr>)) = [2, 1, 3]
   \<and> map id_m (sortedMarkers (init\<lparr>markers :=
      [\<lparr>id_m = 1, frames_m = 120, comment_m = ''a''\<rparr>,
       \<lparr>id_m = 2, frames_m = 0, comment_m = ''b''\<rparr>,
       \<lparr>id_m = 3, frames_m = 120, comment_m = ''c''\<rparr>], sortMode := Created\<rparr>)) = [1, 2, 3]"
proof -
  let ?ms = "[\<lparr>id_m = 1, frames_m = 120, comment_m = ''a''\<rparr>,
       \<lparr>id_m = 2, frames_m = 0, comment_m = ''b''\<rparr>,
       \<lparr>id_m = 3, frames_m = 120, comment_m = ''c''\<rparr>]"
  have t: "map id_m (sortedMarkers (init\<lparr>markers := ?ms, sortMode := Timecode\<rparr>)) = [2, 1, 3]"
    by (simp add: sortedMarkers_def js_sort_def)
  from listing_order [of "init\<lparr>markers := ?ms\<rparr>"] t show ?thesis by simp
qed

subsection \<open>Marker ids\<close>

lemma capture_ids:
  "nextMarkerId ((capture ^^ n) s) = nextMarkerId s + n
   \<and> map id_m (markers ((capture ^^ n) s))
       = map id_m (markers s) @ [nextMarkerId s ..< nextMarkerId s + n]"
proof (induction n)
  case 0
  then show ?case by simp
next
  case (Suc n)
  then show ?case by (simp add: capture_def Let_def upt_Suc_append del: upt_Suc)
qed

lemma reset_ledger: "markers (reset s) = [] \<and> nextMarkerId (reset s) = nextMarkerId s"
  by (simp add: reset_def stop_def Let_def)

text \<open>
  Claim C8 (monotonic ids survive a clear). From the initial state, \<open>n\<close> captures give
  the ids \<open>1, \<dots>, n\<close>; \<^verbatim>\<open>reset\<close>, the one operation that clears the markers, removes
  them all and leaves the id counter at \<open>n + 1\<close>; \<open>m\<close> more captures give the ids
  \<open>n + 1, \<dots>, n + m\<close>. No id occurs twice.
\<close>

theorem monotonic_ids:
  "map id_m (markers ((capture ^^ n) init)) = [1 ..< n + 1]
   \<and> markers (reset ((capture ^^ n) init)) = []
   \<and> nextMarkerId (reset ((capture ^^ n) init)) = n + 1
   \<and> map id_m (markers ((capture ^^ m) (reset ((capture ^^ n) init)))) = [n + 1 ..< n + m + 1]
   \<and> distinct (map id_m (markers ((capture ^^ n) init))
                @ map id_m (markers ((capture ^^ m) (reset ((capture ^^ n) init)))))"
proof -
  have i: "nextMarkerId init = 1" "markers init = []" by (simp_all add: init_def)
  have a: "map id_m (markers ((capture ^^ n) init)) = [1 ..< n + 1]"
    using capture_ids [of n init] by (simp add: i)
  have nx: "nextMarkerId ((capture ^^ n) init) = n + 1"
    using capture_ids [of n init] by (simp add: i)
  have b: "nextMarkerId (reset ((capture ^^ n) init)) = n + 1"
    using reset_ledger [of "(capture ^^ n) init"] nx by simp
  have r: "markers (reset ((capture ^^ n) init)) = []"
    using reset_ledger [of "(capture ^^ n) init"] by simp
  have "map id_m (markers ((capture ^^ m) (reset ((capture ^^ n) init))))
          = map id_m (markers (reset ((capture ^^ n) init)))
            @ [nextMarkerId (reset ((capture ^^ n) init))
                 ..< nextMarkerId (reset ((capture ^^ n) init)) + m]"
    using capture_ids [of m "reset ((capture ^^ n) init)"] by blast
  then have c: "map id_m (markers ((capture ^^ m) (reset ((capture ^^ n) init))))
                  = [n + 1 ..< n + m + 1]"
    unfolding b r by (simp add: add.commute add.left_commute del: upt_Suc)
  have "distinct ([1 ..< n + 1] @ [n + 1 ..< n + m + 1])" by auto
  with a b c r show ?thesis by (simp del: upt_Suc)
qed

theorem monotonic_ids_witness:
  "map id_m (markers ((capture ^^ 2) init)) = [1, 2]
   \<and> map id_m (markers ((capture ^^ 3) (reset ((capture ^^ 2) init)))) = [3, 4, 5]"
  using monotonic_ids [of 2 3]
  by (simp add: upt_rec numeral_2_eq_2 numeral_3_eq_3 del: funpow.simps)

section \<open>The exports\<close>

subsection \<open>The plain text\<close>









subsection \<open>The guard on an empty collection\<close>

text \<open>
  Claim C9 (empty-collection guard). With no markers, each export and the summary stop at
  their first test: the only effect is one alert, nothing is written, shared, printed,
  copied or fetched, and the state is returned unchanged.
\<close>

theorem empty_collection_guard:
  assumes "markers s = []"
  shows "exportMarkers e s = ([Alert ''Export'' ''Nessun marker da esportare.''], s)
       \<and> exportMarkersPdf e s = ([Alert ''Export'' ''Nessun marker da esportare.''], s)
       \<and> copyMarkersToClipboard e s = ([Alert ''Export'' ''Nessun marker da copiare.''], s)
       \<and> onPressExport e s = ([Alert ''Export'' ''Nessun marker da esportare.''], s)
       \<and> generateSummary e s = ([Alert ''Riepilogo'' ''Nessun marker disponibile.''], s)"
  using assms
  by (simp add: exportMarkers_def exportMarkersPdf_def copyMarkersToClipboard_def
      onPressExport_def generateSummary_def)

theorem empty_collection_guard_witness:
  "markers init = []
   \<and> exportMarkers
        \<lparr>platformOS = Android, documentDirectory = ''file:///docs/'', fileNameAnswer = Some '' cut '',
          exportChoice = ChooseTXT, exportedAt = ''3 nov 2026, 10:15'', printUri = ''file:///tmp/p.pdf'',
          canShare = True, GEMINI_KEY = Some ''k'', fetchResult = NetworkError\<rparr> init
       = ([Alert ''Export'' ''Nessun marker da esportare.''], init)
   \<and> generateSummary
        \<lparr>platformOS = Android, documentDirectory = ''file:///docs/'', fileNameAnswer = Some '' cut '',
          exportChoice = ChooseTXT, exportedAt = ''3 nov 2026, 10:15'', printUri = ''file:///tmp/p.pdf'',
          canShare = True, GEMINI_KEY = Some ''k'', fetchResult = NetworkError\<rparr> init
       = ([Alert ''Riepilogo'' ''Nessun marker disponibile.''], init)
   \<and> fst (exportMarkers
        \<lparr>platformOS = Android, documentDirectory = ''file:///docs/'', fileNameAnswer = Some '' cut '',
          exportChoice = ChooseTXT, exportedAt = ''3 nov 2026, 10:15'', printUri = ''file:///tmp/p.pdf'',
          canShare = True, GEMINI_KEY = Some ''k'', fetchResult = NetworkError\<rparr> (capture init))
       = [AskFileName ''markers_24fps'' ''txt'',
          WriteAsString ''file:///docs/cut.txt'' ''#01 [01:00:00:00]'',
          Share ''file:///docs/cut.txt'']"
proof -
  let ?e = "\<lparr>platformOS = Android, documentDirectory = ''file:///docs/'', fileNameAnswer = Some '' cut '',
          exportChoice = ChooseTXT, exportedAt = ''3 nov 2026, 10:15'', printUri = ''file:///tmp/p.pdf'',
          canShare = True, GEMINI_KEY = Some ''k'', fetchResult = NetworkError\<rparr>"
  have i: "markers init = []" by (simp add: init_def)
  have x: "fst (exportMarkers ?e (capture init))
       = [AskFileName ''markers_24fps'' ''txt'',
          WriteAsString ''file:///docs/cut.txt'' ''#01 [01:00:00:00]'',
          Share ''file:///docs/cut.txt'']"
    by code_simp
  from empty_collection_guard [OF i, of ?e] i x show ?thesis by simp
qed

end
